theory Spec2Isabelle
  imports Complex_Main
begin

section \<open>JavaScript values\<close>

text \<open>
  A view state variable of \<open>StudentDashboard\<close> holds \<open>null\<close>, one row object or an
  array of rows (\<open>useState(null)\<close>, \<open>useState([])\<close>).
\<close>

datatype 'r jsval = Null | Obj 'r | Arr "'r list"

text \<open>JavaScript truthiness of such a value: only \<open>null\<close> is falsy, \<open>[]\<close> is truthy.\<close>

fun truthy :: "'r jsval \<Rightarrow> bool" where
  "truthy Null = False"
| "truthy (Obj r) = True"
| "truthy (Arr rs) = True"

text \<open>A property read \<open>v.f\<close>; it is \<open>undefined\<close> (\<open>None\<close>) unless \<open>v\<close> is a row.\<close>

fun field_of :: "('r \<Rightarrow> string) \<Rightarrow> 'r jsval \<Rightarrow> string option" where
  "field_of f (Obj r) = Some (f r)"
| "field_of f Null = None"
| "field_of f (Arr rs) = None"

text \<open>
  A JavaScript number, as far as the analytics need it: a finite value, \<open>NaN\<close> or an
  infinity. A finite value is kept exact, as a rational: the rounding of IEEE doubles
  is not modelled, so a sum or quotient of the model is the exact one. Division never
  throws in JavaScript: \<open>0 / 0\<close> is \<open>NaN\<close> and \<open>x / 0\<close> is an infinity, and both are
  exact in doubles too.
\<close>

datatype jsnum = Num rat | NaN | PosInfinity | NegInfinity

definition js_div :: "rat \<Rightarrow> rat \<Rightarrow> jsnum" where
  "js_div a b =
     (if b = 0 then (if a = 0 then NaN else if 0 < a then PosInfinity else NegInfinity)
      else Num (a / b))"

text \<open>
  \<open>Math.round\<close>: the nearest integer, a tie going towards plus infinity, which is
  \<open>\<lfloor>x + 1/2\<rfloor>\<close>; \<open>NaN\<close> and the infinities are returned unchanged.
\<close>

fun Math_round :: "jsnum \<Rightarrow> jsnum" where
  "Math_round (Num x) = Num (of_int \<lfloor>x + 1 / 2\<rfloor>)"
| "Math_round NaN = NaN"
| "Math_round PosInfinity = PosInfinity"
| "Math_round NegInfinity = NegInfinity"

text \<open>\<open>s || d\<close> on a string that may be \<open>null\<close>: \<open>null\<close> and \<open>""\<close> are falsy.\<close>

definition or_default :: "string option \<Rightarrow> string \<Rightarrow> string" where
  "or_default s d = (case s of None \<Rightarrow> d | Some v \<Rightarrow> (if v = [] then d else v))"

section \<open>The backend client and the effects of a handler\<close>

text \<open>
  A call of the Supabase client resolves with an object \<open>{ data, error }\<close>; a failure is
  a non-null \<open>error\<close>, of which the pages read the \<open>message\<close>.
\<close>

record 'd response =
  resp_data :: 'd
  resp_error :: "string option"

text \<open>The authenticated user (\<open>id\<close>, \<open>email\<close>; further fields are never read) and the session.\<close>

record auth_user =
  u_id :: string
  u_email :: string

record 'u session =
  session_user :: "'u option"

text \<open>Named arguments of a call, in the order of the source.\<close>

type_synonym args = "(string \<times> string) list"

text \<open>
  A table read: \<open>supabase.from(table).select(columns).eq(...)...\<close>, with the optional
  \<open>.order(column, { ascending })\<close> and \<open>.single()\<close>. A filter value is
  \<open>undefined\<close> (\<open>None\<close>) when it was read from something that is not a row.
\<close>

record read =
  table :: string
  columns :: string
  eq_filters :: "(string \<times> string option) list"
  order_by :: "(string \<times> bool) option"
  single_row :: bool

text \<open>What a handler does to the outside, in order.\<close>

datatype event =
    GetSession
  | SignUp string string args
  | SignInWithPassword string string
  | Rpc string args
  | CreateFacultyProfile args
  | TableRead read
  | ConsoleError "string list"
  | SetError string
  | SetIsLoading bool
  | RouterPush string
  | RouterReplace string

text \<open>The targets of the navigations of a trace, in order.\<close>

fun navigations :: "event list \<Rightarrow> string list" where
  "navigations [] = []"
| "navigations (RouterPush p # evs) = p # navigations evs"
| "navigations (RouterReplace p # evs) = p # navigations evs"
| "navigations (e # evs) = navigations evs"

text \<open>The profile-creation calls of a trace, in order.\<close>

fun is_profile_creation :: "event \<Rightarrow> bool" where
  "is_profile_creation (Rpc n a) = (n = ''create_student_profile'' \<or> n = ''create_faculty_profile'')"
| "is_profile_creation (CreateFacultyProfile a) = True"
| "is_profile_creation e = False"

definition profile_creations :: "event list \<Rightarrow> event list" where
  "profile_creations evs = filter is_profile_creation evs"

fun is_table_read :: "event \<Rightarrow> bool" where
  "is_table_read (TableRead r) = True"
| "is_table_read e = False"

text \<open>The path of a navigation target: the part before the query string.\<close>

definition pathname :: "string \<Rightarrow> string" where
  "pathname url = takeWhile (\<lambda>c. c \<noteq> CHR ''?'') url"

text \<open>
  The dashboard path of a role and the remote procedure that creates its profile, as the
  properties below name them: \<open>"faculty"\<close> has \<open>/faculty/dashboard\<close> and
  \<open>create_faculty_profile\<close>, every other role \<open>/student/dashboard\<close> and
  \<open>create_student_profile\<close>.
\<close>

definition dashboard_path :: "string \<Rightarrow> string" where
  "dashboard_path role = (if role = ''faculty'' then ''/faculty/dashboard'' else ''/student/dashboard'')"

definition profile_procedure :: "string \<Rightarrow> string" where
  "profile_procedure role =
     (if role = ''faculty'' then ''create_faculty_profile'' else ''create_student_profile'')"

section \<open>OAuth callback page: \<open>handleAuth\<close>\<close>

text \<open>
  \<open>handleAuth\<close> of \<open>AuthCallbackPage\<close>. Inputs: the result of \<open>getSession()\<close>, the
  value of \<open>localStorage.getItem("userType")\<close>, and the backend's answer to a remote
  procedure call (the \<open>message\<close> of its error, if any).
\<close>

definition handleAuth ::
  "('a auth_user_scheme session option) response \<Rightarrow> string option \<Rightarrow>
     (string \<Rightarrow> args \<Rightarrow> string option) \<Rightarrow> event list" where
  "handleAuth res stored rpc =
     GetSession #
     (case resp_data res of
        None \<Rightarrow> [RouterReplace ''/login?error=auth'']
      | Some session \<Rightarrow>
          (if resp_error res \<noteq> None then [RouterReplace ''/login?error=auth'']
           else
             (let userType = or_default stored ''student'' in
                (case session_user session of
                   None \<Rightarrow> []
                 | Some user \<Rightarrow>
                     (if userType = ''faculty''
                      then Rpc ''create_faculty_profile'' [(''user_email'', u_email user)] #
                        (case rpc ''create_faculty_profile'' [(''user_email'', u_email user)] of
                           Some msg \<Rightarrow> [ConsoleError [''Faculty profile creation error:'', msg]]
                         | None \<Rightarrow> [])
                      else Rpc ''create_student_profile'' [(''user_email'', u_email user)] #
                        (case rpc ''create_student_profile'' [(''user_email'', u_email user)] of
                           Some msg \<Rightarrow> [ConsoleError [''Student profile creation error:'', msg]]
                         | None \<Rightarrow> [])))
                @ [RouterReplace (if userType = ''faculty'' then ''/faculty/dashboard''
                                  else ''/student/dashboard'')])))"

section \<open>Home page\<close>

text \<open>
  The effect of \<open>HomePage\<close>, on the session and status of \<open>useSession()\<close>: nothing
  while the status is \<open>"loading"\<close>, then one navigation. \<open>session?.user\<close> is falsy when
  the session is \<open>null\<close> or has no user.
\<close>

datatype status = Loading | Authenticated | Unauthenticated

definition HomePage :: "'u session option \<Rightarrow> status \<Rightarrow> event list" where
  "HomePage session st =
     (if st = Loading then []
      else if (case session of None \<Rightarrow> False | Some s \<Rightarrow> session_user s \<noteq> None)
      then [RouterPush ''/student/dashboard'']
      else [RouterPush ''/login''])"

section \<open>Login page: \<open>handleManualAuth\<close>\<close>

text \<open>
  \<open>handleManualAuth\<close> of \<open>LoginPage\<close>, on the state variables \<open>isRegister\<close>,
  \<open>activeTab\<close>, \<open>email\<close> and \<open>password\<close>, and the results of \<open>signUp\<close> and
  \<open>signInWithPassword\<close>. The \<open>finally\<close> block ends every run. The \<open>catch\<close> block is
  reached only when a client call rejects instead of resolving with an \<open>error\<close>, which
  the client does not do.
\<close>

definition handleManualAuth ::
  "bool \<Rightarrow> string \<Rightarrow> string \<Rightarrow> string \<Rightarrow> unit response \<Rightarrow>
     ('u session option) response \<Rightarrow> event list" where
  "handleManualAuth isRegister activeTab email password signUp_res signIn_res =
     [SetIsLoading True, SetError ''''] @
     (if isRegister
      then SignUp email password [] #
        (case resp_error signUp_res of
           Some msg \<Rightarrow> [SetError msg]
         | None \<Rightarrow> [SetError ''Check your email for a confirmation link.''])
      else SignInWithPassword email password #
        (case resp_error signIn_res of
           Some msg \<Rightarrow> [SetError msg]
         | None \<Rightarrow>
             (case resp_data signIn_res of
                Some session \<Rightarrow>
                  [RouterPush (if activeTab = ''faculty'' then ''/faculty/dashboard''
                               else ''/student/dashboard'')]
              | None \<Rightarrow> [])))
     @ [SetIsLoading False]"

section \<open>Sign-up page: \<open>handleSubmit\<close>\<close>

text \<open>
  The form state \<open>formData\<close>; a field that was never typed in (\<open>""\<close> or
  \<open>undefined\<close>) is the empty string, falsy in both cases.
\<close>

record formData =
  fd_name :: string
  fd_email :: string
  fd_class :: string
  fd_section :: string
  fd_username :: string
  fd_password :: string
  fd_department :: string

text \<open>
  \<open>createFacultyProfile\<close> is imported from \<open>@/lib/auth-service\<close>, which is not among
  the sources: it is a parameter of \<open>handleSubmit\<close>. Awaited inside \<open>try\<close> with its
  result unused, it either returns or throws an error whose \<open>message\<close> may be missing.
\<close>

datatype outcome = Returns | Throws "string option"

text \<open>\<open>String.prototype.toLowerCase\<close> (on ASCII letters) and \<open>String.prototype.includes\<close>.\<close>

definition toLowerCase :: "string \<Rightarrow> string" where
  "toLowerCase s =
     map (\<lambda>c. let n = (of_char c :: nat) in if 65 \<le> n \<and> n \<le> 90 then char_of (n + 32) else c) s"

fun includes_str :: "string \<Rightarrow> string \<Rightarrow> bool" where
  "includes_str [] p = (p = [])"
| "includes_str (c # cs) p = (take (length p) (c # cs) = p \<or> includes_str cs p)"

text \<open>The message the \<open>catch\<close> block of \<open>handleSubmit\<close> shows.\<close>

definition catch_message :: "string option \<Rightarrow> string" where
  "catch_message m =
     (case m of
        None \<Rightarrow> ''An error occurred. Please try again.''
      | Some msg \<Rightarrow>
          (if msg \<noteq> [] \<and> includes_str (toLowerCase msg) ''duplicate''
           then ''This email or username is already registered. Please log in instead.''
           else or_default (Some msg) ''An error occurred. Please try again.''))"

text \<open>
  \<open>handleSubmit\<close> of \<open>SignupPage\<close>, on the state variables \<open>userType\<close> and
  \<open>formData\<close>, the result of \<open>signUp\<close>, the backend's answer to a remote procedure call
  and the outcome of \<open>createFacultyProfile\<close>. Each early \<open>return\<close> calls
  \<open>setIsLoading(false)\<close> itself, and the \<open>finally\<close> block does so again.
\<close>

definition handleSubmit ::
  "string \<Rightarrow> formData \<Rightarrow> unit response \<Rightarrow> (string \<Rightarrow> args \<Rightarrow> string option) \<Rightarrow>
     (args \<Rightarrow> outcome) \<Rightarrow> event list" where
  "handleSubmit userType fd signUp_res rpc createFacultyProfile =
     [SetError '''', SetIsLoading True] @
     (if userType = ''student''
      then
        (if fd_class fd = [] \<or> fd_section fd = [] \<or> fd_username fd = [] \<or> fd_email fd = []
              \<or> fd_password fd = []
         then [SetError ''All fields are required for students.'', SetIsLoading False]
         else
           SignUp (fd_email fd) (fd_password fd)
             [(''full_name'', fd_name fd), (''user_type'', ''student''),
              (''username'', fd_username fd), (''department'', fd_class fd),
              (''section'', fd_section fd)] #
           (case resp_error signUp_res of
              Some msg \<Rightarrow> [SetError msg, SetIsLoading False]
            | None \<Rightarrow>
                (let a = [(''user_email'', fd_email fd), (''department'', fd_class fd),
                          (''section'', fd_section fd), (''username'', fd_username fd)]
                 in Rpc ''create_student_profile'' a #
                   (case rpc ''create_student_profile'' a of
                      Some msg \<Rightarrow> [SetError msg, SetIsLoading False]
                    | None \<Rightarrow> [RouterPush ''/student/dashboard'']))))
      else
        (if fd_department fd = [] \<or> fd_section fd = [] \<or> fd_username fd = []
         then [SetError ''Department, section, and username are required for faculty.'',
               SetIsLoading False]
         else
           (let a = [(''email'', fd_email fd), (''department'', fd_department fd),
                     (''section'', fd_section fd), (''username'', fd_username fd)]
            in CreateFacultyProfile a #
              (case createFacultyProfile a of
                 Returns \<Rightarrow> [RouterReplace ''/faculty/dashboard'']
               | Throws m \<Rightarrow> [ConsoleError [or_default m ''''], SetError (catch_message m)]))))
     @ [SetIsLoading False]"

section \<open>The profile store behind the remote procedures\<close>

text \<open>
  The bodies of the remote procedures \<open>create_student_profile\<close> and
  \<open>create_faculty_profile\<close> run in the backend and are not among the sources; what
  follows is written from their description in the spec.
\<close>

text \<open>
  Modelled from the spec: a profile row, which is missing from the sources with the
  table it lives in. The spec: a role-scoped record linking an identity to
  department, section and username, keyed by email.
\<close>

record profile =
  p_role :: string
  p_email :: string
  p_department :: string
  p_section :: string
  p_username :: string




section \<open>Student dashboard\<close>

text \<open>
  Rows of \<open>quiz_results\<close> and of \<open>students\<close>, with the columns the dashboard reads:
  \<open>score\<close> is a number or \<open>null\<close> (\<open>None\<close>).
\<close>

record quiz_row =
  score :: "rat option"
  status :: string

record student_row =
  id_of :: string
  department :: string
  section_of :: string

record analytics_figures =
  averageScore :: jsnum
  totalQuizzes :: nat
  completed :: nat

text \<open>The view state, and its initial value (the arguments of the \<open>useState\<close> calls).\<close>

record dashboard =
  quizResults :: "quiz_row jsval"
  loadingData :: bool
  studentProfile :: "student_row jsval"
  classmates :: "student_row jsval"
  leaderboard :: "student_row jsval"
  analytics :: analytics_figures

definition dashboard_init :: dashboard where
  "dashboard_init =
     \<lparr>quizResults = Arr [], loadingData = True, studentProfile = Null, classmates = Arr [],
      leaderboard = Arr [],
      analytics = \<lparr>averageScore = Num 0, totalQuizzes = 0, completed = 0\<rparr>\<rparr>"

text \<open>
  The backend answers a read of a table with an array of rows or, when the read fails,
  with \<open>null\<close> and an error.
\<close>

record backend =
  students :: "read \<Rightarrow> student_row list option response"
  quiz_results :: "read \<Rightarrow> quiz_row list option response"

text \<open>
  \<open>.single()\<close>: the one row of the result; a result of no row or of several rows is an
  error, with \<open>null\<close> data.
\<close>

definition single :: "'r list option response \<Rightarrow> 'r option response" where
  "single res =
     (case resp_data res of
        None \<Rightarrow> \<lparr>resp_data = None, resp_error = resp_error res\<rparr>
      | Some rows \<Rightarrow>
          (case rows of
             [r] \<Rightarrow> \<lparr>resp_data = Some r, resp_error = None\<rparr>
           | _ \<Rightarrow> \<lparr>resp_data = None,
                  resp_error = Some ''JSON object requested, multiple (or no) rows returned''\<rparr>))"

text \<open>What \<open>setStudentProfile(data)\<close> and \<open>setX(data || [])\<close> store.\<close>

definition of_row :: "'r option \<Rightarrow> 'r jsval" where
  "of_row d = (case d of None \<Rightarrow> Null | Some r \<Rightarrow> Obj r)"

definition or_empty :: "'r list option \<Rightarrow> 'r jsval" where
  "or_empty d = (case d of None \<Rightarrow> Arr [] | Some rows \<Rightarrow> Arr rows)"

text \<open>The reads the dashboard issues.\<close>

definition profile_read :: "string \<Rightarrow> read" where
  "profile_read uid =
     \<lparr>table = ''students'', columns = ''*'', eq_filters = [(''id'', Some uid)],
      order_by = None, single_row = True\<rparr>"

definition quiz_results_read :: "string \<Rightarrow> read" where
  "quiz_results_read uid =
     \<lparr>table = ''quiz_results'', columns = ''*, quizzes(*)'',
      eq_filters = [(''student_id'', Some uid)], order_by = Some (''taken_at'', False),
      single_row = False\<rparr>"

definition classmates_read :: "student_row jsval \<Rightarrow> read" where
  "classmates_read prof =
     \<lparr>table = ''students'', columns = ''*'',
      eq_filters = [(''department'', field_of department prof), (''section'', field_of section_of prof)],
      order_by = None, single_row = False\<rparr>"

definition leaderboard_read :: "student_row jsval \<Rightarrow> read" where
  "leaderboard_read prof =
     \<lparr>table = ''students'', columns = ''*'',
      eq_filters = [(''department'', field_of department prof), (''section'', field_of section_of prof)],
      order_by = Some (''score'', False), single_row = False\<rparr>"

definition analytics_read :: "string \<Rightarrow> read" where
  "analytics_read uid =
     \<lparr>table = ''quiz_results'', columns = ''*'', eq_filters = [(''student_id'', Some uid)],
      order_by = None, single_row = False\<rparr>"

text \<open>\<open>fetchProfile\<close>: the \<open>error\<close> of the result is never read.\<close>

definition fetchProfile ::
  "'a auth_user_scheme option \<Rightarrow> backend \<Rightarrow> dashboard \<Rightarrow> event list \<times> dashboard" where
  "fetchProfile user b st =
     (case user of
        None \<Rightarrow> ([], st)
      | Some u \<Rightarrow>
          (let res = single (students b (profile_read (u_id u)))
           in ([TableRead (profile_read (u_id u))],
               st\<lparr>studentProfile := of_row (resp_data res)\<rparr>)))"

text \<open>
  \<open>fetchQuizResults\<close>: \<open>setLoadingData(true)\<close> comes before the test of the user.
\<close>

definition fetchQuizResults ::
  "'a auth_user_scheme option \<Rightarrow> backend \<Rightarrow> dashboard \<Rightarrow> event list \<times> dashboard" where
  "fetchQuizResults user b st =
     (let st1 = st\<lparr>loadingData := True\<rparr> in
        (case user of
           None \<Rightarrow> ([], st1)
         | Some u \<Rightarrow>
             (let res = quiz_results b (quiz_results_read (u_id u))
              in ([TableRead (quiz_results_read (u_id u))],
                  st1\<lparr>quizResults := or_empty (resp_data res), loadingData := False\<rparr>))))"

text \<open>
  \<open>fetchClassmatesAndLeaderboard\<close>, run once a profile is there: two reads, keyed by
  the department and section of the profile.
\<close>

definition fetchClassmatesAndLeaderboard ::
  "backend \<Rightarrow> dashboard \<Rightarrow> event list \<times> dashboard" where
  "fetchClassmatesAndLeaderboard b st =
     (if \<not> truthy (studentProfile st) then ([], st)
      else
        (let classmatesData = resp_data (students b (classmates_read (studentProfile st)));
             st1 = st\<lparr>classmates := or_empty classmatesData\<rparr>;
             leaderboardData = resp_data (students b (leaderboard_read (studentProfile st)));
             st2 = st1\<lparr>leaderboard := or_empty leaderboardData\<rparr>
         in ([TableRead (classmates_read (studentProfile st)),
              TableRead (leaderboard_read (studentProfile st))], st2)))"

subsection \<open>Analytics\<close>

text \<open>\<open>q.score !== null\<close>.\<close>

definition score_not_null :: "quiz_row \<Rightarrow> bool" where
  "score_not_null q = (score q \<noteq> None)"

text \<open>\<open>q.score || 0\<close>: a null score and the score \<open>0\<close> are falsy, both give \<open>0\<close>.\<close>

definition score_or_0 :: "quiz_row \<Rightarrow> rat" where
  "score_or_0 q = (case score q of None \<Rightarrow> 0 | Some s \<Rightarrow> (if s = 0 then 0 else s))"

text \<open>\<open>rows.reduce((sum, q) => sum + (q.score || 0), 0)\<close>.\<close>

definition sum_scores :: "quiz_row list \<Rightarrow> rat" where
  "sum_scores rows = foldl (\<lambda>sum q. sum + score_or_0 q) 0 rows"

text \<open>
  The expression bound to \<open>averageScore\<close>:
  \<^verbatim>\<open>data.length > 0
    ? Math.round(data.filter(q => q.score !== null).reduce(...) /
                 data.filter(q => q.score !== null).length)
    : 0\<close>
  The guard looks at the length of \<open>data\<close>, the divisor is the number of rows with a
  score.
\<close>

definition average_score :: "quiz_row list \<Rightarrow> jsnum" where
  "average_score data =
     (if length data > 0
      then Math_round (js_div (sum_scores (filter score_not_null data))
                              (of_nat (length (filter score_not_null data))))
      else Num 0)"

text \<open>
  \<open>fetchAnalytics\<close>: nothing happens without a user, and nothing is stored when the read
  gives no data (\<open>if (data)\<close>); otherwise the three figures are stored.
\<close>

definition fetchAnalytics ::
  "'a auth_user_scheme option \<Rightarrow> backend \<Rightarrow> dashboard \<Rightarrow> event list \<times> dashboard" where
  "fetchAnalytics user b st =
     (case user of
        None \<Rightarrow> ([], st)
      | Some u \<Rightarrow>
          ([TableRead (analytics_read (u_id u))],
           (case resp_data (quiz_results b (analytics_read (u_id u))) of
              None \<Rightarrow> st
            | Some rows \<Rightarrow>
                st\<lparr>analytics :=
                     \<lparr>averageScore = average_score rows,
                      totalQuizzes = length rows,
                      completed = length (filter (\<lambda>q. status q = ''completed'') rows)\<rparr>\<rparr>)))"

subsection \<open>Rank\<close>

text \<open>\<open>Array.prototype.findIndex\<close>: the first index whose element satisfies \<open>p\<close>, or \<open>-1\<close>.\<close>

fun findIndex :: "('a \<Rightarrow> bool) \<Rightarrow> 'a list \<Rightarrow> int" where
  "findIndex p [] = - 1"
| "findIndex p (x # xs) =
     (if p x then 0 else (let i = findIndex p xs in if i = - 1 then - 1 else i + 1))"

text \<open>
  \<open>classRank: leaderboard.findIndex(l => l.id === user.id) + 1 || 1\<close>: the number
  \<open>0\<close> is falsy, so a user who is not found gets rank 1.
\<close>

definition classRank :: "student_row list \<Rightarrow> string \<Rightarrow> int" where
  "classRank leaderboard_rows user_id =
     (let r = findIndex (\<lambda>l. id_of l = user_id) leaderboard_rows + 1
      in if r = 0 then 1 else r)"

section \<open>Example inputs\<close>

text \<open>
  A user, a filled sign-up form, a backend whose remote procedures succeed and one whose
  remote procedures fail, a backend whose reads all fail and one whose tables are empty.
\<close>

definition jdoe :: auth_user where
  "jdoe = \<lparr>u_id = ''7f3a'', u_email = ''jdoe@example.org''\<rparr>"

definition jdoe_session :: "(auth_user session option) response" where
  "jdoe_session = \<lparr>resp_data = Some \<lparr>session_user = Some jdoe\<rparr>, resp_error = None\<rparr>"

definition jdoe_form :: formData where
  "jdoe_form =
     \<lparr>fd_name = ''J. Doe'', fd_email = ''jdoe@example.org'', fd_class = ''CS'',
      fd_section = ''A'', fd_username = ''jdoe'', fd_password = ''secret'',
      fd_department = ''CS''\<rparr>"

definition resolved :: "unit response" where
  "resolved = \<lparr>resp_data = (), resp_error = None\<rparr>"

definition rpc_succeeds :: "string \<Rightarrow> args \<Rightarrow> string option" where
  "rpc_succeeds n a = None"

definition rpc_fails :: "string \<Rightarrow> args \<Rightarrow> string option" where
  "rpc_fails n a = Some ''permission denied''"

definition backend_down :: backend where
  "backend_down =
     \<lparr>students = (\<lambda>r. \<lparr>resp_data = None, resp_error = Some ''fetch failed''\<rparr>),
      quiz_results = (\<lambda>r. \<lparr>resp_data = None, resp_error = Some ''fetch failed''\<rparr>)\<rparr>"

definition backend_empty :: backend where
  "backend_empty =
     \<lparr>students = (\<lambda>r. \<lparr>resp_data = Some [], resp_error = None\<rparr>),
      quiz_results = (\<lambda>r. \<lparr>resp_data = Some [], resp_error = None\<rparr>)\<rparr>"

definition jdoe_dashboard :: dashboard where
  "jdoe_dashboard =
     dashboard_init\<lparr>studentProfile :=
       Obj \<lparr>id_of = ''7f3a'', department = ''CS'', section_of = ''A''\<rparr>\<rparr>"

section \<open>Properties of the analytics\<close>

lemma sum_scores_foldl: "foldl (\<lambda>sum q. sum + score_or_0 q) a rows = a + sum_list (map score_or_0 rows)"
  by (induction rows arbitrary: a) simp_all

lemma sum_scores_sum_list: "sum_scores rows = sum_list (map score_or_0 rows)"
  by (simp add: sum_scores_def sum_scores_foldl)

lemma score_or_0_the: "score_not_null q \<Longrightarrow> score_or_0 q = the (score q)"
  by (auto simp: score_not_null_def score_or_0_def)

lemma sum_scores_nonnull:
  "sum_scores (filter score_not_null rows) = sum_list (map (the \<circ> score) (filter score_not_null rows))"
  unfolding sum_scores_sum_list
  by (rule arg_cong [where f = sum_list]) (simp add: score_or_0_the)

text \<open>
  With at least one scored row the figure of the model is the rounded mean of the
  scores, as \<^const>\<open>round\<close> of the library defines rounding. This is a fact of exact
  arithmetic. The source adds and divides IEEE doubles, which round every sum and
  quotient: for scores with a fractional part, or beyond \<open>2\<^sup>5\<^sup>3\<close>, its figure can
  be one away from this one (the scores 98.6, 47.8 and 56.1 have the exact mean 67.5,
  rounded to 68, and a double sum just below 202.5, rounded to 67).
\<close>

lemma average_score_scored:
  assumes "0 < length (filter score_not_null data)"
  shows "average_score data =
           Num (of_int (round (sum_list (map (the \<circ> score) (filter score_not_null data))
                               / of_nat (length (filter score_not_null data)))))"
proof -
  from assms have "data \<noteq> []" by auto
  with assms show ?thesis
    by (simp add: average_score_def js_div_def sum_scores_nonnull round_def)
qed

text \<open>With no row at all the guard gives \<open>0\<close>.\<close>

lemma average_score_no_rows: "average_score [] = Num 0"
  by (simp add: average_score_def)

text \<open>With rows but no score among them, the division is \<open>0 / 0\<close>.\<close>

lemma average_score_all_null:
  assumes "data \<noteq> []" and "filter score_not_null data = []"
  shows "average_score data = NaN"
  using assms by (simp add: average_score_def js_div_def sum_scores_def)

text \<open>
  C1. The average is meant to be \<open>0\<close> whenever no row has a score. The guard of the
  source tests the number of rows instead of the number of scored rows: for the single
  row \<open>{score: null, status: 'completed'}\<close> (N = 1, M = 0) the stored
  \<open>averageScore\<close> is \<open>NaN\<close>, not \<open>0\<close>.
\<close>

theorem fetchAnalytics_all_null_scores_NaN:
  "snd (fetchAnalytics (Some \<lparr>u_id = ''s1'', u_email = ''s1@example.org''\<rparr>)
         \<lparr>students = (\<lambda>r. \<lparr>resp_data = Some [], resp_error = None\<rparr>),
          quiz_results = (\<lambda>r. \<lparr>resp_data = Some [\<lparr>score = None, status = ''completed''\<rparr>],
                                 resp_error = None\<rparr>)\<rparr>
         dashboard_init)
     = dashboard_init\<lparr>analytics := \<lparr>averageScore = NaN, totalQuizzes = 1, completed = 1\<rparr>\<rparr>"
  by (simp add: fetchAnalytics_def average_score_def js_div_def sum_scores_def
      score_not_null_def)

section \<open>Properties of the rank\<close>

lemma findIndex_ge: "- 1 \<le> findIndex p xs"
  by (induction xs) (auto simp: Let_def)

lemma findIndex_absent: "(\<forall>x \<in> set xs. \<not> p x) \<Longrightarrow> findIndex p xs = - 1"
  by (induction xs) auto

lemma findIndex_first:
  "k < length xs \<Longrightarrow> p (xs ! k) \<Longrightarrow> (\<forall>j < k. \<not> p (xs ! j)) \<Longrightarrow> findIndex p xs = int k"
proof (induction xs arbitrary: k)
  case Nil
  then show ?case by simp
next
  case (Cons x xs)
  show ?case
  proof (cases k)
    case 0
    with Cons.prems show ?thesis by simp
  next
    case (Suc k')
    from Cons.prems Suc have "\<not> p x" by auto
    moreover have "findIndex p xs = int k'"
    proof (rule Cons.IH)
      show "k' < length xs" using Cons.prems Suc by simp
      show "p (xs ! k')" using Cons.prems Suc by simp
      show "\<forall>j < k'. \<not> p (xs ! j)"
      proof (intro allI impI)
        fix j assume "j < k'"
        then have "Suc j < k" using Suc by simp
        with Cons.prems have "\<not> p ((x # xs) ! Suc j)" by blast
        then show "\<not> p (xs ! j)" by simp
      qed
    qed
    ultimately show ?thesis using Suc by (simp add: Let_def)
  qed
qed

text \<open>
  A user found at its first occurrence gets that index plus one; a user who does not
  occur gets rank 1.
\<close>

lemma classRank_found:
  assumes "k < length lb" and "id_of (lb ! k) = user_id"
    and "\<forall>j < k. id_of (lb ! j) \<noteq> user_id"
  shows "classRank lb user_id = int k + 1"
proof -
  from assms have "findIndex (\<lambda>l. id_of l = user_id) lb = int k"
    by (intro findIndex_first) auto
  then show ?thesis by (simp add: classRank_def)
qed

lemma classRank_absent:
  assumes "\<forall>l \<in> set lb. id_of l \<noteq> user_id"
  shows "classRank lb user_id = 1"
proof -
  from assms have "findIndex (\<lambda>l. id_of l = user_id) lb = - 1"
    by (intro findIndex_absent) auto
  then show ?thesis by (simp add: classRank_def)
qed

text \<open>In a list of rows with distinct ids, an id is at one index only.\<close>

lemma distinct_ids_before:
  assumes "distinct (map id_of lb)" and "k < length lb" and "j < k"
  shows "id_of (lb ! j) \<noteq> id_of (lb ! k)"
proof
  assume e: "id_of (lb ! j) = id_of (lb ! k)"
  have j: "j < length (map id_of lb)" and k: "k < length (map id_of lb)"
    using assms(2,3) by simp_all
  have "map id_of lb ! j = map id_of lb ! k"
    using e assms(2,3) by simp
  then have "j = k"
    using nth_eq_iff_index_eq [OF assms(1) j k] by blast
  with assms(3) show False by simp
qed

text \<open>
  C2. The leaderboard is one read of the table \<open>students\<close>, whose rows are keyed by
  \<open>id\<close>: no id occurs twice in it. For every such leaderboard and every user id, a
  user id present at index \<open>k\<close> (0-based) has \<open>classRank = k + 1\<close>, and a user id
  absent from the array has \<open>classRank = 1\<close>.
\<close>

theorem classRank_index_plus_one:
  "(distinct (map id_of lb) \<and> k < length lb \<and> id_of (lb ! k) = user_id
     \<longrightarrow> classRank lb user_id = int k + 1)
   \<and> ((\<forall>l \<in> set lb. id_of l \<noteq> user_id) \<longrightarrow> classRank lb user_id = 1)"
proof (intro conjI impI)
  assume a: "distinct (map id_of lb) \<and> k < length lb \<and> id_of (lb ! k) = user_id"
  have "\<forall>j < k. id_of (lb ! j) \<noteq> user_id"
  proof (intro allI impI)
    fix j assume "j < k"
    with a have "id_of (lb ! j) \<noteq> id_of (lb ! k)"
      by (intro distinct_ids_before) simp_all
    with a show "id_of (lb ! j) \<noteq> user_id" by simp
  qed
  with a show "classRank lb user_id = int k + 1"
    by (intro classRank_found) simp_all
next
  assume "\<forall>l \<in> set lb. id_of l \<noteq> user_id"
  then show "classRank lb user_id = 1"
    by (rule classRank_absent)
qed

text \<open>
  C2, at concrete inputs: in a leaderboard of three students the one at index 1 has
  rank 2 and the one at index 2 has rank 3; a user who is not in it has rank 1, as in
  the empty leaderboard.
\<close>

theorem classRank_index_plus_one_witness:
  "classRank [\<lparr>id_of = ''a'', department = ''CS'', section_of = ''A''\<rparr>,
              \<lparr>id_of = ''b'', department = ''CS'', section_of = ''A''\<rparr>,
              \<lparr>id_of = ''c'', department = ''CS'', section_of = ''A''\<rparr>] ''b'' = 2
   \<and> classRank [\<lparr>id_of = ''a'', department = ''CS'', section_of = ''A''\<rparr>,
                 \<lparr>id_of = ''b'', department = ''CS'', section_of = ''A''\<rparr>,
                 \<lparr>id_of = ''c'', department = ''CS'', section_of = ''A''\<rparr>] ''c'' = 3
   \<and> classRank [\<lparr>id_of = ''a'', department = ''CS'', section_of = ''A''\<rparr>] ''z'' = 1
   \<and> classRank [] ''z'' = 1"
proof -
  let ?a = "\<lparr>id_of = ''a'', department = ''CS'', section_of = ''A''\<rparr>"
  let ?b = "\<lparr>id_of = ''b'', department = ''CS'', section_of = ''A''\<rparr>"
  let ?c = "\<lparr>id_of = ''c'', department = ''CS'', section_of = ''A''\<rparr>"
  have d: "distinct (map id_of [?a, ?b, ?c])" by simp
  have "classRank [?a, ?b, ?c] ''b'' = int 1 + 1"
    using d classRank_index_plus_one [where lb = "[?a, ?b, ?c]" and k = 1 and user_id = "''b''"]
    by simp
  moreover have "classRank [?a, ?b, ?c] ''c'' = int 2 + 1"
    using d classRank_index_plus_one [where lb = "[?a, ?b, ?c]" and k = 2 and user_id = "''c''"]
    by simp
  moreover have "classRank [?a] ''z'' = 1"
    using classRank_index_plus_one [where lb = "[?a]" and k = 0 and user_id = "''z''"]
    by simp
  moreover have "classRank [] ''z'' = 1"
    using classRank_index_plus_one [where lb = "[]" and k = 0 and user_id = "''z''"]
    by simp
  ultimately show ?thesis by simp
qed

section \<open>Properties of the OAuth callback, the home page and the login page\<close>

text \<open>
  Without a session, or with an error from \<open>getSession\<close>, \<open>handleAuth\<close> does one thing.
\<close>

lemma handleAuth_no_session:
  "resp_data res = None \<or> resp_error res \<noteq> None \<Longrightarrow>
     handleAuth res stored rpc = [GetSession, RouterReplace ''/login?error=auth'']"
  by (auto simp: handleAuth_def split: option.splits)

text \<open>
  With a session and no error: at most one remote procedure call, for the stored role,
  its error logged if there is one, then the navigation.
\<close>

lemma handleAuth_session:
  assumes "resp_data res = Some s" and "resp_error res = None"
  shows "handleAuth res stored rpc =
     GetSession #
     (case session_user s of
        None \<Rightarrow> []
      | Some user \<Rightarrow>
          Rpc (profile_procedure (or_default stored ''student'')) [(''user_email'', u_email user)] #
          (case rpc (profile_procedure (or_default stored ''student'')) [(''user_email'', u_email user)] of
             None \<Rightarrow> []
           | Some msg \<Rightarrow>
               [ConsoleError [if or_default stored ''student'' = ''faculty''
                              then ''Faculty profile creation error:''
                              else ''Student profile creation error:'', msg]]))
     @ [RouterReplace (dashboard_path (or_default stored ''student''))]"
  using assms
  by (simp add: handleAuth_def Let_def profile_procedure_def dashboard_path_def
      split: option.splits)

text \<open>
  The dashboard issues no read without a user, and none for classmates or leaderboard
  without a profile.
\<close>

lemma dashboard_without_user_reads_nothing:
  "fst (fetchProfile None b st) = []"
  "fst (fetchQuizResults None b st) = []"
  "fst (fetchAnalytics None b st) = []"
  "\<not> truthy (studentProfile st) \<Longrightarrow> fst (fetchClassmatesAndLeaderboard b st) = []"
  by (simp_all add: fetchProfile_def fetchQuizResults_def fetchAnalytics_def
      fetchClassmatesAndLeaderboard_def)

text \<open>
  C4. When \<open>getSession\<close> gives no session or gives an error, \<open>handleAuth\<close>
  navigates to \<open>/login\<close> (with the query string \<open>?error=auth\<close>) and does nothing else:
  its trace holds no profile-creation call and no table read, and it is the same trace
  whether the session is absent or its fetch failed. Once \<open>useSession\<close> has settled
  (status not \<open>"loading"\<close>), \<open>HomePage\<close> navigates to \<open>/login\<close> when there is
  no session or no user in it, and does nothing else.
\<close>

theorem no_session_goes_to_login:
  "((resp_data res = None \<or> resp_error res \<noteq> None) \<longrightarrow>
      handleAuth res stored rpc = [GetSession, RouterReplace ''/login?error=auth'']
      \<and> map pathname (navigations (handleAuth res stored rpc)) = [''/login'']
      \<and> profile_creations (handleAuth res stored rpc) = []
      \<and> filter is_table_read (handleAuth res stored rpc) = [])
   \<and> (st \<noteq> Loading \<and> (session = None \<or> (\<exists>s. session = Some s \<and> session_user s = None)) \<longrightarrow>
      HomePage session st = [RouterPush ''/login''])"
proof (intro conjI impI)
  assume a: "resp_data res = None \<or> resp_error res \<noteq> None"
  show t: "handleAuth res stored rpc = [GetSession, RouterReplace ''/login?error=auth'']"
    by (rule handleAuth_no_session [OF a])
  show "map pathname (navigations (handleAuth res stored rpc)) = [''/login'']"
    by (simp add: t pathname_def)
  show "profile_creations (handleAuth res stored rpc) = []"
    by (simp add: t profile_creations_def)
  show "filter is_table_read (handleAuth res stored rpc) = []"
    by (simp add: t)
next
  assume "st \<noteq> Loading \<and> (session = None \<or> (\<exists>s. session = Some s \<and> session_user s = None))"
  then show "HomePage session st = [RouterPush ''/login'']"
    by (auto simp: HomePage_def)
qed

text \<open>
  C4, at concrete inputs: a failed fetch, a failed fetch that still carries a session,
  an absent session, and the home page without a session.
\<close>

theorem no_session_goes_to_login_witness:
  "handleAuth \<lparr>resp_data = None :: auth_user session option, resp_error = Some ''network''\<rparr>
       (Some ''faculty'') rpc_succeeds
     = [GetSession, RouterReplace ''/login?error=auth'']
   \<and> handleAuth \<lparr>resp_data = Some \<lparr>session_user = Some jdoe\<rparr>, resp_error = Some ''network''\<rparr>
       (Some ''faculty'') rpc_succeeds
     = handleAuth \<lparr>resp_data = None :: auth_user session option, resp_error = None\<rparr>
       (Some ''faculty'') rpc_succeeds
   \<and> map pathname (navigations (handleAuth
         \<lparr>resp_data = None :: auth_user session option, resp_error = None\<rparr> None rpc_fails))
     = [''/login'']
   \<and> HomePage (None :: auth_user session option) Unauthenticated = [RouterPush ''/login'']"
proof -
  have "handleAuth \<lparr>resp_data = None :: auth_user session option, resp_error = Some ''network''\<rparr>
       (Some ''faculty'') rpc_succeeds = [GetSession, RouterReplace ''/login?error=auth'']"
    using no_session_goes_to_login
      [where res = "\<lparr>resp_data = None :: auth_user session option, resp_error = Some ''network''\<rparr>"
         and stored = "Some ''faculty''" and rpc = rpc_succeeds
         and session = "None :: auth_user session option" and st = Unauthenticated]
    by simp
  moreover have "handleAuth \<lparr>resp_data = Some \<lparr>session_user = Some jdoe\<rparr>, resp_error = Some ''network''\<rparr>
       (Some ''faculty'') rpc_succeeds = [GetSession, RouterReplace ''/login?error=auth'']"
    using no_session_goes_to_login
      [where res = "\<lparr>resp_data = Some \<lparr>session_user = Some jdoe\<rparr>, resp_error = Some ''network''\<rparr>"
         and stored = "Some ''faculty''" and rpc = rpc_succeeds
         and session = "None :: auth_user session option" and st = Unauthenticated]
    by simp
  moreover have "handleAuth \<lparr>resp_data = None :: auth_user session option, resp_error = None\<rparr>
       (Some ''faculty'') rpc_succeeds = [GetSession, RouterReplace ''/login?error=auth'']"
    using no_session_goes_to_login
      [where res = "\<lparr>resp_data = None :: auth_user session option, resp_error = None\<rparr>"
         and stored = "Some ''faculty''" and rpc = rpc_succeeds
         and session = "None :: auth_user session option" and st = Unauthenticated]
    by simp
  moreover have "map pathname (navigations (handleAuth
         \<lparr>resp_data = None :: auth_user session option, resp_error = None\<rparr> None rpc_fails))
     = [''/login'']"
    using no_session_goes_to_login
      [where res = "\<lparr>resp_data = None :: auth_user session option, resp_error = None\<rparr>"
         and stored = None and rpc = rpc_fails
         and session = "None :: auth_user session option" and st = Unauthenticated]
    by (simp add: pathname_def)
  moreover have "HomePage (None :: auth_user session option) Unauthenticated = [RouterPush ''/login'']"
    using no_session_goes_to_login
      [where res = "\<lparr>resp_data = None :: auth_user session option, resp_error = None\<rparr>"
         and stored = None and rpc = rpc_fails
         and session = "None :: auth_user session option" and st = Unauthenticated]
    by simp
  ultimately show ?thesis by simp
qed

text \<open>
  C5. With a session and no error, \<open>handleAuth\<close> ends with one navigation, to the
  dashboard path of the role stored locally (\<open>"student"\<close> when nothing is stored),
  whatever the backend answers to the provisioning call; the call it issues before is
  the one for that role, with the email of the session's user. Neither depends on any
  profile the identity already has.
\<close>

theorem oauth_callback_routes_by_stored_role:
  "resp_data res = Some s \<and> resp_error res = None \<longrightarrow>
     navigations (handleAuth res stored rpc) = [dashboard_path (or_default stored ''student'')]
     \<and> last (handleAuth res stored rpc) = RouterReplace (dashboard_path (or_default stored ''student''))
     \<and> (\<forall>u. session_user s = Some u \<longrightarrow>
           profile_creations (handleAuth res stored rpc) =
             [Rpc (profile_procedure (or_default stored ''student'')) [(''user_email'', u_email u)]])"
proof (intro impI)
  assume "resp_data res = Some s \<and> resp_error res = None"
  then have t: "handleAuth res stored rpc =
     GetSession #
     (case session_user s of
        None \<Rightarrow> []
      | Some user \<Rightarrow>
          Rpc (profile_procedure (or_default stored ''student'')) [(''user_email'', u_email user)] #
          (case rpc (profile_procedure (or_default stored ''student'')) [(''user_email'', u_email user)] of
             None \<Rightarrow> []
           | Some msg \<Rightarrow>
               [ConsoleError [if or_default stored ''student'' = ''faculty''
                              then ''Faculty profile creation error:''
                              else ''Student profile creation error:'', msg]]))
     @ [RouterReplace (dashboard_path (or_default stored ''student''))]"
    by (intro handleAuth_session) simp_all
  show "navigations (handleAuth res stored rpc) = [dashboard_path (or_default stored ''student'')]
     \<and> last (handleAuth res stored rpc) = RouterReplace (dashboard_path (or_default stored ''student''))
     \<and> (\<forall>u. session_user s = Some u \<longrightarrow>
           profile_creations (handleAuth res stored rpc) =
             [Rpc (profile_procedure (or_default stored ''student'')) [(''user_email'', u_email u)]])"
    unfolding t
    by (auto simp: profile_creations_def profile_procedure_def split: option.splits)
qed

text \<open>
  C5, at concrete inputs: the stored role \<open>"student"\<close> creates a student profile and
  routes to the student dashboard, also when the backend refuses the call; the stored
  role \<open>"faculty"\<close> routes to the faculty dashboard; no stored role routes to the
  student dashboard.
\<close>

theorem oauth_callback_routes_by_stored_role_witness:
  "navigations (handleAuth jdoe_session (Some ''student'') rpc_fails) = [''/student/dashboard'']
   \<and> last (handleAuth jdoe_session (Some ''student'') rpc_fails) = RouterReplace ''/student/dashboard''
   \<and> profile_creations (handleAuth jdoe_session (Some ''student'') rpc_fails) =
       [Rpc ''create_student_profile'' [(''user_email'', ''jdoe@example.org'')]]
   \<and> navigations (handleAuth jdoe_session (Some ''faculty'') rpc_succeeds) = [''/faculty/dashboard'']
   \<and> navigations (handleAuth jdoe_session None rpc_succeeds) = [''/student/dashboard'']"
proof -
  have s: "resp_data jdoe_session = Some \<lparr>session_user = Some jdoe\<rparr> \<and> resp_error jdoe_session = None"
    by (simp add: jdoe_session_def)
  have "navigations (handleAuth jdoe_session (Some ''student'') rpc_fails) = [''/student/dashboard'']
   \<and> last (handleAuth jdoe_session (Some ''student'') rpc_fails) = RouterReplace ''/student/dashboard''
   \<and> profile_creations (handleAuth jdoe_session (Some ''student'') rpc_fails) =
       [Rpc ''create_student_profile'' [(''user_email'', ''jdoe@example.org'')]]"
    using s oauth_callback_routes_by_stored_role
      [where res = jdoe_session and s = "\<lparr>session_user = Some jdoe\<rparr>"
         and stored = "Some ''student''" and rpc = rpc_fails]
    by (simp add: or_default_def dashboard_path_def profile_procedure_def jdoe_def)
  moreover have "navigations (handleAuth jdoe_session (Some ''faculty'') rpc_succeeds) = [''/faculty/dashboard'']"
    using s oauth_callback_routes_by_stored_role
      [where res = jdoe_session and s = "\<lparr>session_user = Some jdoe\<rparr>"
         and stored = "Some ''faculty''" and rpc = rpc_succeeds]
    by (simp add: or_default_def dashboard_path_def)
  moreover have "navigations (handleAuth jdoe_session None rpc_succeeds) = [''/student/dashboard'']"
    using s oauth_callback_routes_by_stored_role
      [where res = jdoe_session and s = "\<lparr>session_user = Some jdoe\<rparr>"
         and stored = None and rpc = rpc_succeeds]
    by (simp add: or_default_def dashboard_path_def)
  ultimately show ?thesis by simp
qed

text \<open>
  C9. Once \<open>useSession\<close> has settled, \<open>HomePage\<close> sends every session that has a
  user to \<open>/student/dashboard\<close>, whatever the user object \<open>u\<close> holds (a role
  included).
\<close>

theorem home_page_always_student_dashboard:
  "st \<noteq> Loading \<longrightarrow> HomePage (Some \<lparr>session_user = Some u\<rparr>) st = [RouterPush ''/student/dashboard'']"
  by (simp add: HomePage_def)

text \<open>
  C9, at concrete inputs: a user record, and a user object that is the role \<open>"faculty"\<close>.
\<close>

theorem home_page_always_student_dashboard_witness:
  "HomePage (Some \<lparr>session_user = Some jdoe\<rparr>) Authenticated = [RouterPush ''/student/dashboard'']
   \<and> HomePage (Some \<lparr>session_user = Some ''faculty''\<rparr>) Authenticated
       = [RouterPush ''/student/dashboard'']"
  using home_page_always_student_dashboard [where st = Authenticated and u = jdoe]
    home_page_always_student_dashboard [where st = Authenticated and u = "''faculty''"]
  by simp

text \<open>
  C10. A password sign-in that returns a session and no error redirects to the dashboard
  of the active tab: \<open>/faculty/dashboard\<close> for the tab \<open>"faculty"\<close>,
  \<open>/student/dashboard\<close> for any other. The session, of any user type, is not looked
  into, and no profile is read.
\<close>

theorem sign_in_redirect_by_active_tab:
  "resp_error signIn_res = None \<and> resp_data signIn_res = Some s \<longrightarrow>
     handleManualAuth False activeTab email password signUp_res signIn_res =
       [SetIsLoading True, SetError '''', SignInWithPassword email password,
        RouterPush (dashboard_path activeTab), SetIsLoading False]
     \<and> navigations (handleManualAuth False activeTab email password signUp_res signIn_res) =
         [dashboard_path activeTab]"
  by (simp add: handleManualAuth_def dashboard_path_def)

text \<open>
  C10, at concrete inputs: the same session under the two tabs.
\<close>

theorem sign_in_redirect_by_active_tab_witness:
  "navigations (handleManualAuth False ''faculty'' ''jdoe@example.org'' ''secret'' resolved jdoe_session)
     = [''/faculty/dashboard'']
   \<and> navigations (handleManualAuth False ''student'' ''jdoe@example.org'' ''secret'' resolved jdoe_session)
     = [''/student/dashboard'']"
proof -
  have s: "resp_error jdoe_session = None \<and> resp_data jdoe_session = Some \<lparr>session_user = Some jdoe\<rparr>"
    by (simp add: jdoe_session_def)
  show ?thesis
    using s
      sign_in_redirect_by_active_tab [where signIn_res = jdoe_session
        and s = "\<lparr>session_user = Some jdoe\<rparr>" and activeTab = "''faculty''"
        and email = "''jdoe@example.org''" and password = "''secret''" and signUp_res = resolved]
      sign_in_redirect_by_active_tab [where signIn_res = jdoe_session
        and s = "\<lparr>session_user = Some jdoe\<rparr>" and activeTab = "''student''"
        and email = "''jdoe@example.org''" and password = "''secret''" and signUp_res = resolved]
    by (simp add: dashboard_path_def)
qed

section \<open>Properties of the sign-up page and of provisioning\<close>

text \<open>
  The student path of \<open>handleSubmit\<close> when the form is filled, \<open>signUp\<close> succeeds and
  the remote procedure fails.
\<close>

lemma handleSubmit_student_rpc_error:
  assumes "fd_class fd \<noteq> []" "fd_section fd \<noteq> []" "fd_username fd \<noteq> []" "fd_email fd \<noteq> []"
    "fd_password fd \<noteq> []"
    and "resp_error signUp_res = None"
    and "rpc ''create_student_profile''
           [(''user_email'', fd_email fd), (''department'', fd_class fd),
            (''section'', fd_section fd), (''username'', fd_username fd)] = Some msg"
  shows "handleSubmit ''student'' fd signUp_res rpc cfp =
     [SetError '''', SetIsLoading True,
      SignUp (fd_email fd) (fd_password fd)
        [(''full_name'', fd_name fd), (''user_type'', ''student''),
         (''username'', fd_username fd), (''department'', fd_class fd),
         (''section'', fd_section fd)],
      Rpc ''create_student_profile''
        [(''user_email'', fd_email fd), (''department'', fd_class fd),
         (''section'', fd_section fd), (''username'', fd_username fd)],
      SetError msg, SetIsLoading False, SetIsLoading False]"
  using assms by (simp add: handleSubmit_def Let_def)

text \<open>
  C3, as stated, is false for the sign-up form: when \<open>create_student_profile\<close> fails
  after a successful \<open>signUp\<close>, \<open>handleSubmit\<close> shows the message as the form error,
  returns, and never navigates.
\<close>

theorem signup_provisioning_failure_counterexample:
  "rpc_fails ''create_student_profile''
       [(''user_email'', ''jdoe@example.org''), (''department'', ''CS''), (''section'', ''A''),
        (''username'', ''jdoe'')] = Some ''permission denied''
   \<and> handleSubmit ''student'' jdoe_form resolved rpc_fails (\<lambda>a. Returns) =
       [SetError '''', SetIsLoading True,
        SignUp ''jdoe@example.org'' ''secret''
          [(''full_name'', ''J. Doe''), (''user_type'', ''student''), (''username'', ''jdoe''),
           (''department'', ''CS''), (''section'', ''A'')],
        Rpc ''create_student_profile''
          [(''user_email'', ''jdoe@example.org''), (''department'', ''CS''), (''section'', ''A''),
           (''username'', ''jdoe'')],
        SetError ''permission denied'', SetIsLoading False, SetIsLoading False]
   \<and> navigations (handleSubmit ''student'' jdoe_form resolved rpc_fails (\<lambda>a. Returns)) = []"
  by (simp add: handleSubmit_def jdoe_form_def resolved_def rpc_fails_def)

text \<open>
  C3, amended. In the OAuth callback a failed provisioning call is logged with
  \<open>console.error\<close> and the navigation to the dashboard of the stored role follows. In
  the student path of the sign-up form a failed provisioning call is fatal for the
  submission: its message becomes the form error and there is no navigation.
\<close>

theorem provisioning_failure_by_flow:
  "(resp_data res = Some s \<and> resp_error res = None \<and> session_user s = Some u
      \<and> rpc (profile_procedure (or_default stored ''student'')) [(''user_email'', u_email u)] = Some msg
    \<longrightarrow> handleAuth res stored rpc =
          [GetSession,
           Rpc (profile_procedure (or_default stored ''student'')) [(''user_email'', u_email u)],
           ConsoleError [if or_default stored ''student'' = ''faculty''
                         then ''Faculty profile creation error:''
                         else ''Student profile creation error:'', msg],
           RouterReplace (dashboard_path (or_default stored ''student''))])
   \<and> (fd_class fd \<noteq> [] \<and> fd_section fd \<noteq> [] \<and> fd_username fd \<noteq> [] \<and> fd_email fd \<noteq> []
      \<and> fd_password fd \<noteq> [] \<and> resp_error signUp_res = None
      \<and> rpc' ''create_student_profile''
           [(''user_email'', fd_email fd), (''department'', fd_class fd),
            (''section'', fd_section fd), (''username'', fd_username fd)] = Some msg'
    \<longrightarrow> navigations (handleSubmit ''student'' fd signUp_res rpc' cfp) = []
        \<and> handleSubmit ''student'' fd signUp_res rpc' cfp =
          [SetError '''', SetIsLoading True,
           SignUp (fd_email fd) (fd_password fd)
             [(''full_name'', fd_name fd), (''user_type'', ''student''),
              (''username'', fd_username fd), (''department'', fd_class fd),
              (''section'', fd_section fd)],
           Rpc ''create_student_profile''
             [(''user_email'', fd_email fd), (''department'', fd_class fd),
              (''section'', fd_section fd), (''username'', fd_username fd)],
           SetError msg', SetIsLoading False, SetIsLoading False])"
proof (intro conjI impI)
  assume "resp_data res = Some s \<and> resp_error res = None \<and> session_user s = Some u
      \<and> rpc (profile_procedure (or_default stored ''student'')) [(''user_email'', u_email u)] = Some msg"
  then show "handleAuth res stored rpc =
          [GetSession,
           Rpc (profile_procedure (or_default stored ''student'')) [(''user_email'', u_email u)],
           ConsoleError [if or_default stored ''student'' = ''faculty''
                         then ''Faculty profile creation error:''
                         else ''Student profile creation error:'', msg],
           RouterReplace (dashboard_path (or_default stored ''student''))]"
    by (simp add: handleAuth_session [of res s])
next
  assume a: "fd_class fd \<noteq> [] \<and> fd_section fd \<noteq> [] \<and> fd_username fd \<noteq> [] \<and> fd_email fd \<noteq> []
      \<and> fd_password fd \<noteq> [] \<and> resp_error signUp_res = None
      \<and> rpc' ''create_student_profile''
           [(''user_email'', fd_email fd), (''department'', fd_class fd),
            (''section'', fd_section fd), (''username'', fd_username fd)] = Some msg'"
  then show t: "handleSubmit ''student'' fd signUp_res rpc' cfp =
          [SetError '''', SetIsLoading True,
           SignUp (fd_email fd) (fd_password fd)
             [(''full_name'', fd_name fd), (''user_type'', ''student''),
              (''username'', fd_username fd), (''department'', fd_class fd),
              (''section'', fd_section fd)],
           Rpc ''create_student_profile''
             [(''user_email'', fd_email fd), (''department'', fd_class fd),
              (''section'', fd_section fd), (''username'', fd_username fd)],
           SetError msg', SetIsLoading False, SetIsLoading False]"
    by (intro handleSubmit_student_rpc_error) simp_all
  show "navigations (handleSubmit ''student'' fd signUp_res rpc' cfp) = []"
    unfolding t by simp
qed

text \<open>
  C3, amended, at concrete inputs: the same failing backend in the two flows.
\<close>

theorem provisioning_failure_by_flow_witness:
  "handleAuth jdoe_session (Some ''faculty'') rpc_fails =
       [GetSession,
        Rpc ''create_faculty_profile'' [(''user_email'', ''jdoe@example.org'')],
        ConsoleError [''Faculty profile creation error:'', ''permission denied''],
        RouterReplace ''/faculty/dashboard'']
   \<and> navigations (handleSubmit ''student'' jdoe_form resolved rpc_fails (\<lambda>a. Returns)) = []"
proof -
  have "resp_data jdoe_session = Some \<lparr>session_user = Some jdoe\<rparr> \<and> resp_error jdoe_session = None
      \<and> session_user \<lparr>session_user = Some jdoe\<rparr> = Some jdoe
      \<and> rpc_fails (profile_procedure (or_default (Some ''faculty'') ''student''))
           [(''user_email'', u_email jdoe)] = Some ''permission denied''"
    by (simp add: jdoe_session_def rpc_fails_def)
  moreover have "fd_class jdoe_form \<noteq> [] \<and> fd_section jdoe_form \<noteq> [] \<and> fd_username jdoe_form \<noteq> []
      \<and> fd_email jdoe_form \<noteq> [] \<and> fd_password jdoe_form \<noteq> [] \<and> resp_error resolved = None
      \<and> rpc_fails ''create_student_profile''
           [(''user_email'', fd_email jdoe_form), (''department'', fd_class jdoe_form),
            (''section'', fd_section jdoe_form), (''username'', fd_username jdoe_form)]
         = Some ''permission denied''"
    by (simp add: jdoe_form_def resolved_def rpc_fails_def)
  ultimately show ?thesis
    using provisioning_failure_by_flow
      [where res = jdoe_session and s = "\<lparr>session_user = Some jdoe\<rparr>" and u = jdoe
         and stored = "Some ''faculty''" and rpc = rpc_fails and msg = "''permission denied''"
         and fd = jdoe_form and signUp_res = resolved and rpc' = rpc_fails
         and msg' = "''permission denied''" and cfp = "\<lambda>a. Returns"]
    by (simp add: or_default_def profile_procedure_def dashboard_path_def jdoe_def)
qed







text \<open>
  C7, as stated, is false for the OAuth callback: its call of
  \<open>create_faculty_profile\<close> supplies \<open>user_email\<close> only; \<open>department\<close>,
  \<open>section\<close> and \<open>username\<close> are not among its arguments.
\<close>

theorem oauth_callback_one_argument_counterexample:
  "handleAuth jdoe_session (Some ''faculty'') rpc_succeeds =
       [GetSession,
        Rpc ''create_faculty_profile'' [(''user_email'', ''jdoe@example.org'')],
        RouterReplace ''/faculty/dashboard'']
   \<and> map fst [(''user_email'', ''jdoe@example.org'')] = [''user_email'']
   \<and> ''department'' \<notin> set (map fst [(''user_email'', ''jdoe@example.org'')])
   \<and> ''section'' \<notin> set (map fst [(''user_email'', ''jdoe@example.org'')])
   \<and> ''username'' \<notin> set (map fst [(''user_email'', ''jdoe@example.org'')])"
  by (simp add: handleAuth_def jdoe_session_def jdoe_def rpc_succeeds_def or_default_def)

text \<open>
  C7, amended. The sign-up form calls \<open>create_student_profile\<close> with the four
  arguments \<open>user_email\<close>, \<open>department\<close>, \<open>section\<close>, \<open>username\<close> and hands
  \<open>createFacultyProfile\<close> the four fields \<open>email\<close>, \<open>department\<close>, \<open>section\<close>,
  \<open>username\<close>; the OAuth callback calls either procedure with \<open>user_email\<close> only.
\<close>

theorem remote_procedure_arguments:
  "(\<forall>n a. Rpc n a \<in> set (handleSubmit userType fd signUp_res rpc cfp) \<longrightarrow>
       n = ''create_student_profile''
       \<and> map fst a = [''user_email'', ''department'', ''section'', ''username''])
   \<and> (\<forall>a. CreateFacultyProfile a \<in> set (handleSubmit userType fd signUp_res rpc cfp) \<longrightarrow>
       map fst a = [''email'', ''department'', ''section'', ''username''])
   \<and> (\<forall>n a. Rpc n a \<in> set (handleAuth res stored rpc') \<longrightarrow>
       (n = ''create_student_profile'' \<or> n = ''create_faculty_profile'')
       \<and> map fst a = [''user_email''])"
proof (intro conjI allI impI)
  fix n a
  assume "Rpc n a \<in> set (handleSubmit userType fd signUp_res rpc cfp)"
  then show "n = ''create_student_profile''"
    and "map fst a = [''user_email'', ''department'', ''section'', ''username'']"
    by (auto simp: handleSubmit_def Let_def split: option.splits outcome.splits if_splits)
next
  fix a
  assume "CreateFacultyProfile a \<in> set (handleSubmit userType fd signUp_res rpc cfp)"
  then show "map fst a = [''email'', ''department'', ''section'', ''username'']"
    by (auto simp: handleSubmit_def Let_def split: option.splits outcome.splits if_splits)
next
  fix n a
  assume "Rpc n a \<in> set (handleAuth res stored rpc')"
  then show "n = ''create_student_profile'' \<or> n = ''create_faculty_profile''"
    and "map fst a = [''user_email'']"
    by (auto simp: handleAuth_def Let_def split: option.splits if_splits)
qed

text \<open>
  C7, amended, at concrete inputs: the calls present in three traces.
\<close>

theorem remote_procedure_arguments_witness:
  "Rpc ''create_student_profile''
       [(''user_email'', ''jdoe@example.org''), (''department'', ''CS''), (''section'', ''A''),
        (''username'', ''jdoe'')]
     \<in> set (handleSubmit ''student'' jdoe_form resolved rpc_succeeds (\<lambda>a. Returns))
   \<and> CreateFacultyProfile
       [(''email'', ''jdoe@example.org''), (''department'', ''CS''), (''section'', ''A''),
        (''username'', ''jdoe'')]
     \<in> set (handleSubmit ''faculty'' jdoe_form resolved rpc_succeeds (\<lambda>a. Returns))
   \<and> Rpc ''create_student_profile'' [(''user_email'', ''jdoe@example.org'')]
     \<in> set (handleAuth jdoe_session None rpc_succeeds)
   \<and> map fst [(''user_email'', ''jdoe@example.org''), (''department'', ''CS''), (''section'', ''A''),
               (''username'', ''jdoe'')]
     = [''user_email'', ''department'', ''section'', ''username'']
   \<and> map fst [(''user_email'', ''jdoe@example.org'')] = [''user_email'']"
proof -
  let ?a = "[(''user_email'', ''jdoe@example.org''), (''department'', ''CS''), (''section'', ''A''),
             (''username'', ''jdoe'')]"
  let ?f = "[(''email'', ''jdoe@example.org''), (''department'', ''CS''), (''section'', ''A''),
             (''username'', ''jdoe'')]"
  have 1: "Rpc ''create_student_profile'' ?a
      \<in> set (handleSubmit ''student'' jdoe_form resolved rpc_succeeds (\<lambda>a. Returns))"
    by (simp add: handleSubmit_def jdoe_form_def resolved_def rpc_succeeds_def)
  have 2: "CreateFacultyProfile ?f
      \<in> set (handleSubmit ''faculty'' jdoe_form resolved rpc_succeeds (\<lambda>a. Returns))"
    by (simp add: handleSubmit_def jdoe_form_def)
  have 3: "Rpc ''create_student_profile'' [(''user_email'', ''jdoe@example.org'')]
      \<in> set (handleAuth jdoe_session None rpc_succeeds)"
    by (simp add: handleAuth_def jdoe_session_def jdoe_def rpc_succeeds_def or_default_def)
  note t = remote_procedure_arguments [where userType = "''student''" and fd = jdoe_form
        and signUp_res = resolved and rpc = rpc_succeeds and cfp = "\<lambda>a. Returns"
        and res = jdoe_session and stored = None and rpc' = rpc_succeeds]
  from t 1 have "map fst ?a = [''user_email'', ''department'', ''section'', ''username'']"
    by blast
  moreover from t 3 have "map fst [(''user_email'', ''jdoe@example.org'')] = [''user_email'']"
    by blast
  ultimately show ?thesis using 1 2 3 by simp
qed

section \<open>Properties of the dashboard reads\<close>

text \<open>
  \<open>.single()\<close> gives no data both when the read failed and when it found no row.
\<close>

lemma single_no_data: "resp_data res = None \<or> resp_data res = Some [] \<Longrightarrow> resp_data (single res) = None"
  by (auto simp: single_def)

text \<open>
  C8, as stated, is false for the profile read: when it fails, \<open>studentProfile\<close>
  receives \<open>null\<close>, not an empty array.
\<close>

theorem profile_fetch_failure_counterexample:
  "resp_data (students backend_down (profile_read (u_id jdoe))) = None
   \<and> studentProfile (snd (fetchProfile (Some jdoe) backend_down dashboard_init)) = Null
   \<and> studentProfile (snd (fetchProfile (Some jdoe) backend_down dashboard_init)) \<noteq> Arr []"
  by (simp add: fetchProfile_def backend_down_def single_def of_row_def)

text \<open>
  C8, amended. A failed read of the quiz results, the classmates or the leaderboard
  stores the empty array; a failed read of the profile stores \<open>null\<close>. In each
  case the view state after the failed read is the view state after a read that
  succeeded and found no row: nothing in it tells the two apart.
\<close>

theorem failed_fetch_stores_no_data:
  "(resp_data (quiz_results b (quiz_results_read (u_id u))) = None \<longrightarrow>
      quizResults (snd (fetchQuizResults (Some u) b st)) = Arr []
      \<and> (resp_data (quiz_results b' (quiz_results_read (u_id u))) = Some [] \<longrightarrow>
           snd (fetchQuizResults (Some u) b st) = snd (fetchQuizResults (Some u) b' st)))
   \<and> (truthy (studentProfile st)
        \<and> resp_data (students b (classmates_read (studentProfile st))) = None \<longrightarrow>
      classmates (snd (fetchClassmatesAndLeaderboard b st)) = Arr [])
   \<and> (truthy (studentProfile st)
        \<and> resp_data (students b (leaderboard_read (studentProfile st))) = None \<longrightarrow>
      leaderboard (snd (fetchClassmatesAndLeaderboard b st)) = Arr [])
   \<and> (truthy (studentProfile st)
        \<and> resp_data (students b (classmates_read (studentProfile st))) = None
        \<and> resp_data (students b (leaderboard_read (studentProfile st))) = None
        \<and> resp_data (students b' (classmates_read (studentProfile st))) = Some []
        \<and> resp_data (students b' (leaderboard_read (studentProfile st))) = Some [] \<longrightarrow>
      snd (fetchClassmatesAndLeaderboard b st) = snd (fetchClassmatesAndLeaderboard b' st))
   \<and> (resp_data (students b (profile_read (u_id u))) = None \<longrightarrow>
      studentProfile (snd (fetchProfile (Some u) b st)) = Null
      \<and> (resp_data (students b' (profile_read (u_id u))) = Some [] \<longrightarrow>
           snd (fetchProfile (Some u) b st) = snd (fetchProfile (Some u) b' st)))"
proof (intro conjI impI)
  assume "resp_data (quiz_results b (quiz_results_read (u_id u))) = None"
  then show "quizResults (snd (fetchQuizResults (Some u) b st)) = Arr []"
    by (simp add: fetchQuizResults_def or_empty_def)
next
  assume "resp_data (quiz_results b (quiz_results_read (u_id u))) = None"
    and "resp_data (quiz_results b' (quiz_results_read (u_id u))) = Some []"
  then show "snd (fetchQuizResults (Some u) b st) = snd (fetchQuizResults (Some u) b' st)"
    by (simp add: fetchQuizResults_def or_empty_def)
next
  assume "truthy (studentProfile st)
        \<and> resp_data (students b (classmates_read (studentProfile st))) = None"
  then show "classmates (snd (fetchClassmatesAndLeaderboard b st)) = Arr []"
    by (simp add: fetchClassmatesAndLeaderboard_def or_empty_def Let_def)
next
  assume "truthy (studentProfile st)
        \<and> resp_data (students b (leaderboard_read (studentProfile st))) = None"
  then show "leaderboard (snd (fetchClassmatesAndLeaderboard b st)) = Arr []"
    by (simp add: fetchClassmatesAndLeaderboard_def or_empty_def Let_def)
next
  assume "truthy (studentProfile st)
        \<and> resp_data (students b (classmates_read (studentProfile st))) = None
        \<and> resp_data (students b (leaderboard_read (studentProfile st))) = None
        \<and> resp_data (students b' (classmates_read (studentProfile st))) = Some []
        \<and> resp_data (students b' (leaderboard_read (studentProfile st))) = Some []"
  then show "snd (fetchClassmatesAndLeaderboard b st) = snd (fetchClassmatesAndLeaderboard b' st)"
    by (simp add: fetchClassmatesAndLeaderboard_def or_empty_def Let_def)
next
  assume "resp_data (students b (profile_read (u_id u))) = None"
  then show "studentProfile (snd (fetchProfile (Some u) b st)) = Null"
    by (simp add: fetchProfile_def of_row_def single_no_data Let_def)
next
  assume "resp_data (students b (profile_read (u_id u))) = None"
    and "resp_data (students b' (profile_read (u_id u))) = Some []"
  then show "snd (fetchProfile (Some u) b st) = snd (fetchProfile (Some u) b' st)"
    by (simp add: fetchProfile_def of_row_def single_no_data Let_def)
qed

text \<open>
  C8, amended, at concrete inputs: a backend whose reads all fail against one whose
  tables are empty.
\<close>

theorem failed_fetch_stores_no_data_witness:
  "quizResults (snd (fetchQuizResults (Some jdoe) backend_down jdoe_dashboard)) = Arr []
   \<and> snd (fetchQuizResults (Some jdoe) backend_down jdoe_dashboard)
       = snd (fetchQuizResults (Some jdoe) backend_empty jdoe_dashboard)
   \<and> classmates (snd (fetchClassmatesAndLeaderboard backend_down jdoe_dashboard)) = Arr []
   \<and> leaderboard (snd (fetchClassmatesAndLeaderboard backend_down jdoe_dashboard)) = Arr []
   \<and> snd (fetchClassmatesAndLeaderboard backend_down jdoe_dashboard)
       = snd (fetchClassmatesAndLeaderboard backend_empty jdoe_dashboard)
   \<and> studentProfile (snd (fetchProfile (Some jdoe) backend_down jdoe_dashboard)) = Null
   \<and> snd (fetchProfile (Some jdoe) backend_down jdoe_dashboard)
       = snd (fetchProfile (Some jdoe) backend_empty jdoe_dashboard)"
proof -
  have q: "resp_data (quiz_results backend_down (quiz_results_read (u_id jdoe))) = None"
    and q': "resp_data (quiz_results backend_empty (quiz_results_read (u_id jdoe))) = Some []"
    and c: "resp_data (students backend_down (classmates_read (studentProfile jdoe_dashboard))) = None"
    and c': "resp_data (students backend_empty (classmates_read (studentProfile jdoe_dashboard))) = Some []"
    and l: "resp_data (students backend_down (leaderboard_read (studentProfile jdoe_dashboard))) = None"
    and l': "resp_data (students backend_empty (leaderboard_read (studentProfile jdoe_dashboard))) = Some []"
    and r: "resp_data (students backend_down (profile_read (u_id jdoe))) = None"
    and r': "resp_data (students backend_empty (profile_read (u_id jdoe))) = Some []"
    by (simp_all add: backend_down_def backend_empty_def)
  have p: "truthy (studentProfile jdoe_dashboard)"
    by (simp add: jdoe_dashboard_def)
  note t = failed_fetch_stores_no_data [where b = backend_down and b' = backend_empty and u = jdoe
        and st = jdoe_dashboard]
  from t q q' have 1: "quizResults (snd (fetchQuizResults (Some jdoe) backend_down jdoe_dashboard)) = Arr []"
    and 2: "snd (fetchQuizResults (Some jdoe) backend_down jdoe_dashboard)
       = snd (fetchQuizResults (Some jdoe) backend_empty jdoe_dashboard)"
    by blast+
  from t p c c' l l' have 3: "classmates (snd (fetchClassmatesAndLeaderboard backend_down jdoe_dashboard)) = Arr []"
    and 4: "leaderboard (snd (fetchClassmatesAndLeaderboard backend_down jdoe_dashboard)) = Arr []"
    and 5: "snd (fetchClassmatesAndLeaderboard backend_down jdoe_dashboard)
       = snd (fetchClassmatesAndLeaderboard backend_empty jdoe_dashboard)"
    by blast+
  from t r r' have 6: "studentProfile (snd (fetchProfile (Some jdoe) backend_down jdoe_dashboard)) = Null"
    and 7: "snd (fetchProfile (Some jdoe) backend_down jdoe_dashboard)
       = snd (fetchProfile (Some jdoe) backend_empty jdoe_dashboard)"
    by blast+
  from 1 2 3 4 5 6 7 show ?thesis by blast
qed

end
